theory Spec2Isabelle
  imports Main "HOL-Library.Sublist"
begin

section \<open>Python values used by the program\<close>

text \<open>
  A Python \<open>str\<close> is modelled as a \<open>string\<close>, each \<open>char\<close> read as the code point of
  the same number (0 to 255). On that range \<open>str.lower\<close> maps A to Z and the
  capital letters 0xC0 to 0xDE (the multiplication sign 0xD7 apart) to the code point 32
  above, and the characters that \<open>str.strip\<close> removes are 0x09 to 0x0D, 0x1C to 0x20,
  0x85 and 0xA0.
\<close>

datatype py_error = IndexError | KeyError | AttributeError | ValueError string | NameError string

definition is_upper :: "char \<Rightarrow> bool" where
  "is_upper c =
     (let n = (of_char c :: nat)
      in (65 \<le> n \<and> n \<le> 90) \<or> (192 \<le> n \<and> n \<le> 222 \<and> n \<noteq> 215))"

definition lower_char :: "char \<Rightarrow> char" where
  "lower_char c = (if is_upper c then char_of ((of_char c :: nat) + 32) else c)"

text \<open>\<^verbatim>\<open>s.lower()\<close>\<close>

definition lower :: "string \<Rightarrow> string" where
  "lower s = map lower_char s"

definition isspace :: "char \<Rightarrow> bool" where
  "isspace c =
     (let n = (of_char c :: nat)
      in (9 \<le> n \<and> n \<le> 13) \<or> (28 \<le> n \<and> n \<le> 32) \<or> n = 133 \<or> n = 160)"

text \<open>\<^verbatim>\<open>s.strip()\<close>: leading and trailing whitespace removed.\<close>

definition strip :: "string \<Rightarrow> string" where
  "strip s = rev (dropWhile isspace (rev (dropWhile isspace s)))"

text \<open>\<^verbatim>\<open>sub in s\<close> on strings: \<open>sub\<close> occurs in \<open>s\<close> at some position.\<close>

fun str_contains :: "string \<Rightarrow> string \<Rightarrow> bool" where
  "str_contains sub [] = (sub = [])"
| "str_contains sub (c # cs) = (prefix sub (c # cs) \<or> str_contains sub cs)"

text \<open>
  \<^verbatim>\<open>s.split(sep)\<close>: the string is scanned from the left; at each occurrence of \<open>sep\<close> the
  current piece ends and the scan goes on behind the occurrence. An empty separator is
  a \<open>ValueError\<close>.
\<close>

fun split_at :: "string \<Rightarrow> string \<Rightarrow> string list" where
  "split_at sep [] = [[]]"
| "split_at sep (c # cs) =
     (if prefix sep (c # cs) then [] # split_at sep (drop (length sep - 1) cs)
      else (case split_at sep cs of
              [] \<Rightarrow> [[c]]
            | p # ps \<Rightarrow> (c # p) # ps))"

definition split :: "string \<Rightarrow> string \<Rightarrow> py_error + string list" where
  "split s sep = (if sep = [] then Inl (ValueError ''empty separator'') else Inr (split_at sep s))"

text \<open>\<^verbatim>\<open>xs[-1]\<close>: the last element, \<open>IndexError\<close> on an empty list.\<close>

definition last_item :: "'a list \<Rightarrow> py_error + 'a" where
  "last_item xs = (if xs = [] then Inl IndexError else Inr (last xs))"

text \<open>\<^verbatim>\<open>sep.join(xs)\<close>\<close>

fun join :: "string \<Rightarrow> string list \<Rightarrow> string" where
  "join sep [] = []"
| "join sep [x] = x"
| "join sep (x # y # ys) = x @ sep @ join sep (y # ys)"

section \<open>The knowledge bank (custom\_tools.py)\<close>

text \<open>
  \<open>ResearchKnowledgeBank\<close> holds a dictionary from user ids to dictionaries from topics
  to lists of findings. \<open>RESEARCH_BANK\<close> is the instance the module creates; the tools
  read and update it, so they take the bank and \<open>save_finding\<close> returns the new one.
  Every list in the bank is created by \<open>__init__\<close> or by \<open>save_finding\<close> for one user
  and topic, so no two entries share a list. The calls of the logger are left out.
\<close>

record ResearchKnowledgeBank =
  db :: "int \<rightharpoonup> (string \<rightharpoonup> string list)"

definition RESEARCH_BANK :: ResearchKnowledgeBank where
  "RESEARCH_BANK =
     \<lparr>db = [101 \<mapsto> [''Quantum Computing'' \<mapsto> [''Initial notes on Qubit entanglement.'']]]\<rparr>"

text \<open>\<^verbatim>\<open>d[k]\<close> and \<^verbatim>\<open>d.get(k, default)\<close>\<close>

definition getitem :: "('k \<rightharpoonup> 'v) \<Rightarrow> 'k \<Rightarrow> py_error + 'v" where
  "getitem d k = (case d k of None \<Rightarrow> Inl KeyError | Some v \<Rightarrow> Inr v)"

definition dict_get :: "('k \<rightharpoonup> 'v) \<Rightarrow> 'k \<Rightarrow> 'v \<Rightarrow> 'v" where
  "dict_get d k dflt = (case d k of None \<Rightarrow> dflt | Some v \<Rightarrow> v)"

definition save_finding ::
  "ResearchKnowledgeBank \<Rightarrow> int \<Rightarrow> string \<Rightarrow> string \<Rightarrow> py_error + (string \<times> ResearchKnowledgeBank)" where
  "save_finding bank user_id topic finding =
     (let db1 = (if db bank user_id = None then (db bank)(user_id \<mapsto> Map.empty) else db bank)
      in case getitem db1 user_id of
           Inl e \<Rightarrow> Inl e
         | Inr topics \<Rightarrow>
             (let db2 = (if topics topic = None then db1(user_id \<mapsto> topics(topic \<mapsto> [])) else db1)
              in case getitem db2 user_id of
                   Inl e \<Rightarrow> Inl e
                 | Inr topics2 \<Rightarrow>
                     (case getitem topics2 topic of
                        Inl e \<Rightarrow> Inl e
                      | Inr findings \<Rightarrow>
                          Inr (''Finding successfully saved to Research Bank under topic ''
                                 @ [CHR 0x27] @ topic @ [CHR 0x27] @ ''.'',
                               bank\<lparr>db := db2(user_id \<mapsto> topics2(topic \<mapsto> findings @ [finding]))\<rparr>))))"

definition summarize_topic_knowledge :: "ResearchKnowledgeBank \<Rightarrow> int \<Rightarrow> string \<Rightarrow> string" where
  "summarize_topic_knowledge bank user_id topic =
     (let user_data = dict_get (db bank) user_id Map.empty;
          findings = dict_get user_data topic [''No current findings on this topic.''];
          summary = join (CHR 0x0A # ''- '') findings
      in ''Existing knowledge on '' @ [CHR 0x27] @ topic @ [CHR 0x27] @ '':'' @ [CHR 0x0A] @ ''- ''
           @ summary)"

text \<open>The findings \<open>f1..fn\<close> saved one after the other for one user and topic.\<close>

fun save_findings ::
  "ResearchKnowledgeBank \<Rightarrow> int \<Rightarrow> string \<Rightarrow> string list \<Rightarrow> py_error + ResearchKnowledgeBank" where
  "save_findings bank user_id topic [] = Inr bank"
| "save_findings bank user_id topic (f # fs) =
     (case save_finding bank user_id topic f of
        Inl e \<Rightarrow> Inl e
      | Inr (confirmation, bank') \<Rightarrow> save_findings bank' user_id topic fs)"

section \<open>The conversation state (main.py)\<close>

datatype role = Human | Assistant | Tool

record tool_call =
  tool_name :: string
  tool_args :: "(string \<times> string) list"

text \<open>
  Of a message the program reads \<open>content\<close> and \<open>tool_calls\<close>; the role records which
  constructor made it. Only an \<open>AIMessage\<close> (the role \<open>Assistant\<close>) has the attribute
  \<open>tool_calls\<close>.
\<close>

record message =
  role :: role
  content :: string
  tool_calls :: "tool_call list"

datatype intent = RESEARCH | STUDY | GENERAL

text \<open>
  \<open>RASAState\<close>. The examples start a conversation with the intent \<^verbatim>\<open>""\<close>, which is
  \<open>None\<close> here.
\<close>

record RASAState =
  messages :: "message list"
  user_id :: int
  research_topic :: string
  intent :: "intent option"

text \<open>The keys a node of the router returns for updating: \<open>intent\<close> and \<open>research_topic\<close>.\<close>

record router_update =
  new_intent :: intent
  new_research_topic :: string

section \<open>The router\<close>

text \<open>
  \<^verbatim>\<open>last_message.split(" on ")[-1].strip()\<close>, the topic extraction of both branches.
  The router's call of \<open>logging.info\<close> changes nothing the program reads and is left out.
\<close>

definition extract_topic :: "string \<Rightarrow> py_error + string" where
  "extract_topic last_message =
     (case split last_message '' on '' of
        Inl e \<Rightarrow> Inl e
      | Inr parts \<Rightarrow>
          (case last_item parts of
             Inl e \<Rightarrow> Inl e
           | Inr seg \<Rightarrow> Inr (strip seg)))"

definition route_request :: "RASAState \<Rightarrow> py_error + router_update" where
  "route_request state =
     (case last_item (messages state) of
        Inl e \<Rightarrow> Inl e
      | Inr m \<Rightarrow>
          (let last_message = content m in
           if str_contains ''research'' (lower last_message)
              \<or> str_contains ''find facts'' (lower last_message)
           then (case extract_topic last_message of
                   Inl e \<Rightarrow> Inl e
                 | Inr topic \<Rightarrow> Inr \<lparr>new_intent = RESEARCH, new_research_topic = topic\<rparr>)
           else if str_contains ''test me'' (lower last_message)
              \<or> str_contains ''explain'' (lower last_message)
           then (case extract_topic last_message of
                   Inl e \<Rightarrow> Inl e
                 | Inr topic \<Rightarrow> Inr \<lparr>new_intent = STUDY, new_research_topic = topic\<rparr>)
           else Inr \<lparr>new_intent = GENERAL, new_research_topic = ''General Inquiry''\<rparr>))"

section \<open>The orchestration graph\<close>

text \<open>
  The language model is an external service: \<open>llm_with_tools.invoke\<close> is a parameter
  of the model, a function from the prompt messages to the response message. The
  response of a chat model is an \<open>AIMessage\<close>: whatever the parameter returns, the
  response carries the role \<open>Assistant\<close>.
\<close>

definition system_prompt :: "string \<Rightarrow> string" where
  "system_prompt topic =
     [CHR 0x0A] @
     ''    You are a Deep Research Assistant. Your goal is to provide comprehensive, sourced answers.'' @ [CHR 0x0A] @
     ''    Your topic is '' @ topic @ ''.'' @ [CHR 0x0A] @
     ''    '' @ [CHR 0x0A] @
     ''    1. **Plan:** Use `summarize_topic_knowledge` to check what the user already knows.'' @ [CHR 0x0A] @
     ''    2. **Execute:** Use `Google Search` to find new information.'' @ [CHR 0x0A] @
     ''    3. **Synthesize:** If a new fact is found, use `save_finding` to update the Research Bank.'' @ [CHR 0x0A] @
     ''    4. **Output:** Provide a final, summarized answer with citations.'' @ [CHR 0x0A] @
     ''    ''"

text \<open>\<open>HumanMessage(content=...)\<close>\<close>

definition HumanMessage :: "string \<Rightarrow> message" where
  "HumanMessage c = \<lparr>role = Human, content = c, tool_calls = []\<rparr>"

text \<open>\<open>research_agent\<close> returns the update \<^verbatim>\<open>{"messages": [response]}\<close>.\<close>

definition research_agent :: "(message list \<Rightarrow> message) \<Rightarrow> RASAState \<Rightarrow> message list" where
  "research_agent llm_with_tools_invoke state =
     (let prompt_messages = HumanMessage (system_prompt (research_topic state)) # messages state;
          response = (llm_with_tools_invoke prompt_messages)\<lparr>role := Assistant\<rparr>
      in [response])"

text \<open>
  The \<open>messages\<close> field is declared \<^verbatim>\<open>Annotated[List[BaseMessage], add]\<close>: an update of it
  is appended to the sequence.
\<close>

definition add_messages :: "RASAState \<Rightarrow> message list \<Rightarrow> RASAState" where
  "add_messages state update = state\<lparr>messages := messages state @ update\<rparr>"

datatype agent_status = call_tool | respond_final

definition check_agent_status :: "RASAState \<Rightarrow> py_error + agent_status" where
  "check_agent_status state =
     (case last_item (messages state) of
        Inl e \<Rightarrow> Inl e
      | Inr last_message \<Rightarrow>
          if role last_message \<noteq> Assistant then Inl AttributeError
          else if tool_calls last_message \<noteq> [] then Inr call_tool
          else Inr respond_final)"

datatype node = START | Node_router | Node_research_agent | Node_study_agent
  | Node_tool_executor | END

text \<open>
  The edges added to \<open>workflow\<close>: the node that runs after node \<open>n\<close> has left the state
  \<open>state\<close>. A conditional edge looks its label up in a dictionary. \<open>END\<close> has no edge
  out: the run is over and stays there.
\<close>

fun next_node :: "node \<Rightarrow> RASAState \<Rightarrow> py_error + node" where
  "next_node START state = Inr Node_router"
| "next_node Node_router state =
     (case intent state of
        Some RESEARCH \<Rightarrow> Inr Node_research_agent
      | Some STUDY \<Rightarrow> Inr Node_study_agent
      | Some GENERAL \<Rightarrow> Inr END
      | None \<Rightarrow> Inl KeyError)"
| "next_node Node_research_agent state =
     (case check_agent_status state of
        Inl e \<Rightarrow> Inl e
      | Inr call_tool \<Rightarrow> Inr Node_tool_executor
      | Inr respond_final \<Rightarrow> Inr END)"
| "next_node Node_study_agent state = Inr END"
| "next_node Node_tool_executor state = Inr Node_research_agent"
| "next_node END state = Inr END"

section \<open>Start of the process (main.py, module level)\<close>

text \<open>
  The names bound in the module when the credential check runs: those of the import
  statements and of the assignments before it.
\<close>

definition module_names :: "string list" where
  "module_names =
     [''logging'', ''TypedDict'', ''Annotated'', ''List'', ''Literal'', ''add'',
      ''BaseMessage'', ''HumanMessage'', ''AIMessage'', ''ChatGoogleGenerativeAI'',
      ''StateGraph'', ''END'', ''START'', ''InMemorySaver'', ''ToolNode'',
      ''GoogleSearchRun'', ''GoogleSearchAPIWrapper'', ''load_dotenv'',
      ''RESEARCH_BANK'', ''save_finding'', ''summarize_topic_knowledge'',
      ''search'', ''google_search_tool'', ''all_tools'']"

text \<open>
  \<^verbatim>\<open>if not os.getenv("GEMINI_API_KEY"): raise ValueError(...)\<close>. Evaluating the name
  \<open>os\<close> comes first and is a \<open>NameError\<close> when the module has not bound it; a variable
  that is unset or empty is falsy.
\<close>

definition check_api_key :: "(string \<rightharpoonup> string) \<Rightarrow> py_error + unit" where
  "check_api_key environ =
     (if ''os'' \<notin> set module_names then Inl (NameError ''os'')
      else (case environ ''GEMINI_API_KEY'' of
              None \<Rightarrow> Inl (ValueError ''GEMINI_API_KEY environment variable not set. Please set it.'')
            | Some v \<Rightarrow>
                if v = [] then Inl (ValueError ''GEMINI_API_KEY environment variable not set. Please set it.'')
                else Inr ()))"

section \<open>Strings: containment, splitting, trimming\<close>

lemma str_contains_sublist: "str_contains sub s = sublist sub s"
  by (induction s) (auto simp: sublist_Cons_right)

lemma split_at_not_Nil: "split_at sep s \<noteq> []"
  by (induction sep s rule: split_at.induct) (auto split: list.splits)

lemma join_Cons_Cons: "join sep ((c # p) # ps) = c # join sep (p # ps)"
  by (cases ps) auto

lemma join_Nil_Cons: "ps \<noteq> [] \<Longrightarrow> join sep ([] # ps) = sep @ join sep ps"
  by (cases ps) auto

lemma prefix_drop_pred:
  assumes "sep \<noteq> []" "prefix sep (c # cs)"
  shows "c # cs = sep @ drop (length sep - 1) cs"
proof -
  from assms(2) obtain r where r: "c # cs = sep @ r" by (auto simp: prefix_def)
  with assms(1) obtain sep' where "sep = c # sep'" by (cases sep) auto
  with r show ?thesis by simp
qed

lemma join_split_at: "sep \<noteq> [] \<Longrightarrow> join sep (split_at sep s) = s"
proof (induction sep s rule: split_at.induct)
  case (1 sep)
  then show ?case by simp
next
  case (2 sep c cs)
  show ?case
  proof (cases "prefix sep (c # cs)")
    case True
    let ?r = "drop (length sep - 1) cs"
    from True have "split_at sep (c # cs) = [] # split_at sep ?r" by simp
    then have "join sep (split_at sep (c # cs)) = sep @ join sep (split_at sep ?r)"
      by (simp add: join_Nil_Cons split_at_not_Nil)
    also have "\<dots> = sep @ ?r" using 2(1)[OF True 2(3)] by simp
    also have "\<dots> = c # cs" using prefix_drop_pred[OF 2(3) True] by simp
    finally show ?thesis .
  next
    case False
    with 2 show ?thesis
      by (auto simp: join_Cons_Cons split_at_not_Nil split: list.splits)
  qed
qed

lemma prefix_join: "prefix p (join sep (p # ps))"
  by (cases ps) auto

lemma split_at_parts_free:
  "sep \<noteq> [] \<Longrightarrow> p \<in> set (split_at sep s) \<Longrightarrow> \<not> sublist sep p"
proof (induction sep s arbitrary: p rule: split_at.induct)
  case (1 sep)
  then show ?case by simp
next
  case (2 sep c cs)
  show ?case
  proof (cases "prefix sep (c # cs)")
    case True
    with 2 show ?thesis by auto
  next
    case False
    obtain q qs where q: "split_at sep cs = q # qs"
      using split_at_not_Nil[of sep cs] by (cases "split_at sep cs") auto
    have "prefix q cs"
      using join_split_at[OF 2(3), of cs] prefix_join[of q sep qs] q by simp
    then have nq: "\<not> prefix sep (c # q)"
      using False by (meson Cons_prefix_Cons prefix_order.trans)
    from 2(4) False q have "p = c # q \<or> p \<in> set qs" by simp
    then show ?thesis
    proof
      assume "p = c # q"
      moreover have "\<not> sublist sep q" using 2(2)[OF False 2(3), of q] q by simp
      ultimately show ?thesis using nq by (simp add: sublist_Cons_right)
    next
      assume "p \<in> set qs"
      then show ?thesis using 2(2)[OF False 2(3), of p] q by simp
    qed
  qed
qed

lemma split_at_absent: "\<not> sublist sep s \<Longrightarrow> split_at sep s = [s]"
proof (induction sep s rule: split_at.induct)
  case (1 sep)
  then show ?case by simp
next
  case (2 sep c cs)
  then show ?case by (auto simp: sublist_Cons_right)
qed

lemma join_snoc: "xs \<noteq> [] \<Longrightarrow> join sep (xs @ [x]) = join sep xs @ sep @ x"
  by (induction sep xs rule: join.induct) auto

lemma split_at_present:
  assumes "sep \<noteq> []" "sublist sep s"
  shows "s = join sep (butlast (split_at sep s)) @ sep @ last (split_at sep s)"
proof -
  let ?ps = "split_at sep s"
  have ne: "?ps \<noteq> []" by (rule split_at_not_Nil)
  have "butlast ?ps \<noteq> []"
  proof
    assume "butlast ?ps = []"
    with ne have "?ps = [last ?ps]" by (metis append_butlast_last_id append_Nil)
    then have "join sep ?ps = last ?ps" by (metis join.simps(2))
    then have "last ?ps = s" using join_split_at[OF assms(1), of s] by simp
    moreover have "\<not> sublist sep (last ?ps)"
      using split_at_parts_free[OF assms(1), of "last ?ps" s] ne by simp
    ultimately show False using assms(2) by simp
  qed
  then have "join sep (butlast ?ps @ [last ?ps]) = join sep (butlast ?ps) @ sep @ last ?ps"
    by (rule join_snoc)
  then show ?thesis using ne join_split_at[OF assms(1), of s] by simp
qed

lemma lower_match:
  "sublist kw (lower s) \<longleftrightarrow> (\<exists>w. sublist w s \<and> lower w = kw)"
proof
  assume "sublist kw (lower s)"
  then obtain ps ss where "map lower_char s = ps @ (kw @ ss)"
    by (auto simp: sublist_def lower_def)
  from this[unfolded map_eq_append_conv]
  obtain a r where ar: "s = a @ r" "kw @ ss = map lower_char r"
    by blast
  from ar(2)[unfolded append_eq_map_conv]
  obtain b c where bc: "r = b @ c" "kw = map lower_char b"
    by blast
  from ar bc have "s = a @ b @ c" "map lower_char b = kw" by simp_all
  then show "\<exists>w. sublist w s \<and> lower w = kw"
    by (auto simp: lower_def)
next
  assume "\<exists>w. sublist w s \<and> lower w = kw"
  then obtain w ps ss where "s = ps @ w @ ss" "map lower_char w = kw"
    by (auto simp: sublist_def lower_def)
  then have "lower s = map lower_char ps @ kw @ map lower_char ss"
    by (simp add: lower_def)
  then show "sublist kw (lower s)"
    unfolding sublist_def by blast
qed

lemma strip_decomp:
  "\<exists>l r. s = l @ strip s @ r \<and> (\<forall>c\<in>set l. isspace c) \<and> (\<forall>c\<in>set r. isspace c)"
proof -
  let ?t = "dropWhile isspace s"
  have 1: "s = takeWhile isspace s @ ?t" by simp
  have 2: "rev ?t = takeWhile isspace (rev ?t) @ dropWhile isspace (rev ?t)" by simp
  then have "?t = strip s @ rev (takeWhile isspace (rev ?t))"
    by (metis rev_append rev_rev_ident strip_def)
  with 1 have "s = takeWhile isspace s @ strip s @ rev (takeWhile isspace (rev ?t))" by simp
  moreover have "\<forall>c\<in>set (takeWhile isspace s). isspace c" by (auto dest: set_takeWhileD)
  moreover have "\<forall>c\<in>set (rev (takeWhile isspace (rev ?t))). isspace c" by (auto dest: set_takeWhileD)
  ultimately show ?thesis by blast
qed

lemma strip_ends:
  "strip s \<noteq> [] \<Longrightarrow> \<not> isspace (hd (strip s)) \<and> \<not> isspace (last (strip s))"
proof -
  assume ne: "strip s \<noteq> []"
  let ?t = "dropWhile isspace s"
  let ?u = "dropWhile isspace (rev ?t)"
  from ne have une: "?u \<noteq> []" by (simp add: strip_def)
  then have "\<not> isspace (hd ?u)" by (rule hd_dropWhile)
  then have l: "\<not> isspace (last (strip s))" using une by (simp add: strip_def last_rev)
  from une have "rev ?t \<noteq> []" by (metis dropWhile.simps(1))
  then have tne: "?t \<noteq> []" by simp
  then have h: "\<not> isspace (hd ?t)" by (rule hd_dropWhile)
  have "?t = strip s @ rev (takeWhile isspace (rev ?t))"
    by (metis rev_append rev_rev_ident strip_def takeWhile_dropWhile_id)
  then have "hd ?t = hd (strip s)" using ne by (metis hd_append2)
  with h l show ?thesis by simp
qed

section \<open>The router: classification and topic\<close>

lemma extract_topic_eq: "extract_topic m = Inr (strip (last (split_at '' on '' m)))"
  by (simp add: extract_topic_def split_def last_item_def split_at_not_Nil)

lemma route_request_latest:
  assumes "messages state = earlier @ [latest]"
  shows "route_request state =
     Inr (if sublist ''research'' (lower (content latest)) \<or> sublist ''find facts'' (lower (content latest))
          then \<lparr>new_intent = RESEARCH, new_research_topic = strip (last (split_at '' on '' (content latest)))\<rparr>
          else if sublist ''test me'' (lower (content latest)) \<or> sublist ''explain'' (lower (content latest))
          then \<lparr>new_intent = STUDY, new_research_topic = strip (last (split_at '' on '' (content latest)))\<rparr>
          else \<lparr>new_intent = GENERAL, new_research_topic = ''General Inquiry''\<rparr>)"
  using assms
  by (simp add: route_request_def last_item_def extract_topic_eq str_contains_sublist Let_def)

text \<open>
  Claim C1, as amended. The message "Please research the current state of Quantum
  Computing" holds no \<open>" on "\<close>, so the split leaves it whole: whatever came before it in
  the conversation, the router answers with the intent RESEARCH and with the entire
  message as the topic.
\<close>

theorem route_request_research_example:
  "route_request
     \<lparr>messages = earlier @ [\<lparr>role = r,
          content = ''Please research the current state of Quantum Computing'',
          tool_calls = tc\<rparr>],
      user_id = u, research_topic = t, intent = i\<rparr>
   = Inr \<lparr>new_intent = RESEARCH,
          new_research_topic = ''Please research the current state of Quantum Computing''\<rparr>"
proof -
  have low: "lower ''Please research the current state of Quantum Computing''
             = ''please research the current state of quantum computing''"
    by code_simp
  show ?thesis
    by (simp add: route_request_def last_item_def extract_topic_def split_def low strip_def
        isspace_def)
qed

text \<open>
  Claim C1 as the specification states it fails: for that message the router does not
  answer with the topic "Quantum Computing".
\<close>

theorem route_request_research_example_counterexample:
  "route_request
     \<lparr>messages = [\<lparr>role = Human,
          content = ''Please research the current state of Quantum Computing'',
          tool_calls = []\<rparr>],
      user_id = 101, research_topic = ''Quantum Computing'', intent = None\<rparr>
   \<noteq> Inr \<lparr>new_intent = RESEARCH, new_research_topic = ''Quantum Computing''\<rparr>"
proof -
  have low: "lower ''Please research the current state of Quantum Computing''
             = ''please research the current state of quantum computing''"
    by code_simp
  show ?thesis
    by (simp add: route_request_def last_item_def extract_topic_def split_def low strip_def
        isspace_def)
qed

text \<open>
  Claim C2, as amended. On a conversation state with no message the router reads
  \<open>state["messages"][-1]\<close> and raises \<open>IndexError\<close>: it produces no intent and no topic.
\<close>

theorem route_request_empty:
  assumes "messages state = []"
  shows "route_request state = Inl IndexError"
  using assms by (simp add: route_request_def last_item_def)

theorem route_request_empty_witness:
  "route_request
     \<lparr>messages = [], user_id = 101, research_topic = ''Quantum Computing'', intent = None\<rparr>
   = Inl IndexError"
  using route_request_empty
    [of "\<lparr>messages = [], user_id = 101, research_topic = ''Quantum Computing'', intent = None\<rparr>"]
  by simp

text \<open>
  Claim C2 as the specification states it fails: on the empty message sequence the router
  raises instead of falling back to a default topic.
\<close>

theorem route_request_empty_counterexample:
  "route_request \<lparr>messages = [], user_id = 0, research_topic = [], intent = None\<rparr>
   = Inl IndexError"
  by (simp add: route_request_def last_item_def)

text \<open>
  Claim C3. On a non-empty message sequence, with \<open>latest\<close> its last message, the router
  returns. The intent is RESEARCH when the lower-cased text contains "research" or "find
  facts", otherwise STUDY when it contains "test me" or "explain", otherwise GENERAL.
  For RESEARCH and STUDY the topic is the last part of the text split at \<open>" on "\<close>,
  trimmed; the parts joined by \<open>" on "\<close> give the text back, none of them contains
  \<open>" on "\<close>, and when the text does not contain it the only part is the whole text. For
  GENERAL the topic is "General Inquiry".
\<close>

theorem route_request_policy:
  assumes "messages state = earlier @ [latest]"
  shows "\<exists>parts.
     split (content latest) '' on '' = Inr parts \<and> parts \<noteq> []
     \<and> join '' on '' parts = content latest
     \<and> (\<forall>p\<in>set parts. \<not> sublist '' on '' p)
     \<and> (\<not> sublist '' on '' (content latest) \<longrightarrow> parts = [content latest])
     \<and> route_request state =
         Inr (if sublist ''research'' (lower (content latest))
                 \<or> sublist ''find facts'' (lower (content latest))
              then \<lparr>new_intent = RESEARCH, new_research_topic = strip (last parts)\<rparr>
              else if sublist ''test me'' (lower (content latest))
                 \<or> sublist ''explain'' (lower (content latest))
              then \<lparr>new_intent = STUDY, new_research_topic = strip (last parts)\<rparr>
              else \<lparr>new_intent = GENERAL, new_research_topic = ''General Inquiry''\<rparr>)"
proof -
  let ?m = "content latest"
  let ?parts = "split_at '' on '' ?m"
  have 1: "split ?m '' on '' = Inr ?parts" by (simp add: split_def)
  have 2: "?parts \<noteq> []" by (rule split_at_not_Nil)
  have 3: "join '' on '' ?parts = ?m" by (rule join_split_at) simp
  have 4: "\<forall>p\<in>set ?parts. \<not> sublist '' on '' p"
    using split_at_parts_free[of "'' on ''" _ ?m] by blast
  have 5: "\<not> sublist '' on '' ?m \<longrightarrow> ?parts = [?m]"
    using split_at_absent[of "'' on ''" ?m] by blast
  note 6 = route_request_latest[OF assms]
  from 1 2 3 4 5 6 show ?thesis by blast
qed

theorem route_request_policy_witness:
  "route_request
     \<lparr>messages = [\<lparr>role = Human, content = ''Find facts on Qubits '', tool_calls = []\<rparr>],
      user_id = 101, research_topic = [], intent = None\<rparr>
   = Inr \<lparr>new_intent = RESEARCH, new_research_topic = ''Qubits''\<rparr>"
proof -
  have low: "lower ''Find facts on Qubits '' = ''find facts on qubits ''"
    by code_simp
  show ?thesis
    using route_request_policy
      [of "\<lparr>messages = [\<lparr>role = Human, content = ''Find facts on Qubits '', tool_calls = []\<rparr>],
            user_id = 101, research_topic = [], intent = None\<rparr>"
          "[]" "\<lparr>role = Human, content = ''Find facts on Qubits '', tool_calls = []\<rparr>"]
    by (simp add: low split_def sublist_Cons_right strip_def isspace_def)
qed

text \<open>
  Claim C4. For the message "Test me on Quantum Computing. What is a qubit?" the router
  answers with the intent STUDY and the topic "Quantum Computing. What is a qubit?",
  whatever came before it in the conversation.
\<close>

theorem route_request_study_example:
  "route_request
     \<lparr>messages = earlier @ [\<lparr>role = r,
          content = ''Test me on Quantum Computing. What is a qubit?'',
          tool_calls = tc\<rparr>],
      user_id = u, research_topic = t, intent = i\<rparr>
   = Inr \<lparr>new_intent = STUDY, new_research_topic = ''Quantum Computing. What is a qubit?''\<rparr>"
proof -
  have low: "lower ''Test me on Quantum Computing. What is a qubit?''
             = ''test me on quantum computing. what is a qubit?''"
    by code_simp
  show ?thesis
    by (simp add: route_request_def last_item_def extract_topic_def split_def low strip_def
        isspace_def)
qed

section \<open>The knowledge bank: saving and summarising\<close>

lemma save_finding_eq:
  "save_finding bank u t f =
     Inr (''Finding successfully saved to Research Bank under topic '' @ [CHR 0x27] @ t @ [CHR 0x27] @ ''.'',
          bank\<lparr>db := (db bank)(u \<mapsto> (dict_get (db bank) u Map.empty)(t \<mapsto> dict_get (dict_get (db bank) u Map.empty) t [] @ [f]))\<rparr>)"
  by (cases "db bank u"; cases "dict_get (db bank) u Map.empty t")
     (auto simp: save_finding_def getitem_def dict_get_def Let_def)

lemma findings_after_save:
  "save_finding bank u t f = Inr (c, bank') \<Longrightarrow>
   dict_get (dict_get (db bank') u Map.empty) t [] = dict_get (dict_get (db bank) u Map.empty) t [] @ [f]
   \<and> dict_get (db bank') u Map.empty t \<noteq> None"
  by (auto simp: save_finding_eq dict_get_def)

lemma save_findings_ledger:
  "\<exists>bank'. save_findings bank u t fs = Inr bank'
     \<and> dict_get (dict_get (db bank') u Map.empty) t [] = dict_get (dict_get (db bank) u Map.empty) t [] @ fs
     \<and> (fs \<noteq> [] \<longrightarrow> dict_get (db bank') u Map.empty t \<noteq> None)"
proof (induction fs arbitrary: bank)
  case Nil
  then show ?case by simp
next
  case (Cons f fs)
  obtain c b1 where s: "save_finding bank u t f = Inr (c, b1)"
    by (simp add: save_finding_eq)
  note a = findings_after_save[OF s]
  from Cons[of b1] obtain b2 where b2: "save_findings b1 u t fs = Inr b2"
    "dict_get (dict_get (db b2) u Map.empty) t [] = dict_get (dict_get (db b1) u Map.empty) t [] @ fs"
    "fs \<noteq> [] \<longrightarrow> dict_get (db b2) u Map.empty t \<noteq> None"
    by blast
  have "dict_get (db b2) u Map.empty t \<noteq> None"
  proof (cases "fs = []")
    case True
    with b2(1) have "b2 = b1" by simp
    with a show ?thesis by simp
  next
    case False
    with b2(3) show ?thesis by simp
  qed
  with s a b2 show ?case by simp
qed

lemma summarize_present:
  "dict_get (db bank) u Map.empty t \<noteq> None \<Longrightarrow>
   summarize_topic_knowledge bank u t =
     ''Existing knowledge on '' @ [CHR 0x27] @ t @ [CHR 0x27] @ '':'' @ [CHR 0x0A] @ ''- ''
       @ join (CHR 0x0A # ''- '') (dict_get (dict_get (db bank) u Map.empty) t [])"
  by (auto simp: summarize_topic_knowledge_def dict_get_def Let_def)

text \<open>
  Claim C5, as amended. When the findings \<open>fs = f1..fn\<close> (at least one) are saved in
  that order for a user and a topic, every save succeeds, and the summary of that user
  and topic is the header followed by the bulleted list of the findings the topic held
  before the saves and then \<open>f1..fn\<close>, in the order of saving, each saved finding once,
  equal findings repeated. When the user or the topic had no entry before, the list is
  \<open>f1..fn\<close> alone.
\<close>

theorem summarize_after_saves:
  assumes "fs \<noteq> []"
  shows "\<exists>bank'. save_findings bank u t fs = Inr bank' \<and>
     summarize_topic_knowledge bank' u t =
       ''Existing knowledge on '' @ [CHR 0x27] @ t @ [CHR 0x27] @ '':'' @ [CHR 0x0A] @ ''- ''
         @ join (CHR 0x0A # ''- '') (dict_get (dict_get (db bank) u Map.empty) t [] @ fs) \<and>
     (dict_get (db bank) u Map.empty t = None \<longrightarrow>
        summarize_topic_knowledge bank' u t =
          ''Existing knowledge on '' @ [CHR 0x27] @ t @ [CHR 0x27] @ '':'' @ [CHR 0x0A] @ ''- ''
            @ join (CHR 0x0A # ''- '') fs)"
proof -
  from save_findings_ledger[of bank u t fs] assms
  obtain b where b: "save_findings bank u t fs = Inr b"
    "dict_get (dict_get (db b) u Map.empty) t [] = dict_get (dict_get (db bank) u Map.empty) t [] @ fs"
    "dict_get (db b) u Map.empty t \<noteq> None"
    by blast
  have "dict_get (db bank) u Map.empty t = None \<longrightarrow>
        dict_get (dict_get (db bank) u Map.empty) t [] = []"
    by (simp add: dict_get_def)
  with summarize_present[OF b(3)] b(1,2) show ?thesis by simp
qed

theorem summarize_after_saves_witness:
  "[''a'', ''b'', ''a''] \<noteq> ([] :: string list) \<and>
   dict_get (db \<lparr>db = Map.empty\<rparr>) 7 Map.empty ''Qubits'' = None \<and>
   (\<exists>bank'. save_findings \<lparr>db = Map.empty\<rparr> 7 ''Qubits'' [''a'', ''b'', ''a''] = Inr bank' \<and>
      summarize_topic_knowledge bank' 7 ''Qubits'' =
        ''Existing knowledge on '' @ [CHR 0x27] @ ''Qubits'' @ [CHR 0x27] @ '':'' @ [CHR 0x0A] @ ''- a''
          @ [CHR 0x0A] @ ''- b'' @ [CHR 0x0A] @ ''- a'')"
  using summarize_after_saves[of "[''a'', ''b'', ''a'']" "\<lparr>db = Map.empty\<rparr>" 7 "''Qubits''"]
  by (simp add: dict_get_def)

text \<open>
  Claim C5 as the specification states it fails on the bank the module creates: after
  the single finding "x" is saved for user 101 and the topic "Quantum Computing", the
  summary lists the finding the topic held before and then "x", not "x" alone.
\<close>

theorem summarize_after_saves_counterexample:
  "save_findings RESEARCH_BANK 101 ''Quantum Computing'' [''x''] =
     Inr \<lparr>db = [101 \<mapsto> [''Quantum Computing'' \<mapsto>
                 [''Initial notes on Qubit entanglement.'', ''x'']]]\<rparr>
   \<and> summarize_topic_knowledge
        \<lparr>db = [101 \<mapsto> [''Quantum Computing'' \<mapsto>
                 [''Initial notes on Qubit entanglement.'', ''x'']]]\<rparr>
        101 ''Quantum Computing'' =
       ''Existing knowledge on '' @ [CHR 0x27] @ ''Quantum Computing'' @ [CHR 0x27] @ '':''
         @ [CHR 0x0A] @ ''- Initial notes on Qubit entanglement.'' @ [CHR 0x0A] @ ''- x''
   \<and> summarize_topic_knowledge
        \<lparr>db = [101 \<mapsto> [''Quantum Computing'' \<mapsto>
                 [''Initial notes on Qubit entanglement.'', ''x'']]]\<rparr>
        101 ''Quantum Computing'' \<noteq>
       ''Existing knowledge on '' @ [CHR 0x27] @ ''Quantum Computing'' @ [CHR 0x27] @ '':''
         @ [CHR 0x0A] @ ''- x''"
  by (simp add: save_finding_eq RESEARCH_BANK_def summarize_topic_knowledge_def dict_get_def)

text \<open>
  Claim C6. When the bank has no entry for the user, or the user's entry has none for
  the topic, \<open>summarize_topic_knowledge\<close> returns the header followed by the one bullet
  "No current findings on this topic."; the function has no failing branch.
\<close>

theorem summarize_unknown:
  assumes "db bank u = None \<or> (\<exists>topics. db bank u = Some topics \<and> topics t = None)"
  shows "summarize_topic_knowledge bank u t =
     ''Existing knowledge on '' @ [CHR 0x27] @ t @ [CHR 0x27] @ '':'' @ [CHR 0x0A]
       @ ''- No current findings on this topic.''"
  using assms by (auto simp: summarize_topic_knowledge_def dict_get_def Let_def)

theorem summarize_unknown_witness:
  "summarize_topic_knowledge RESEARCH_BANK 102 ''Quantum Computing'' =
     ''Existing knowledge on '' @ [CHR 0x27] @ ''Quantum Computing'' @ [CHR 0x27] @ '':'' @ [CHR 0x0A]
       @ ''- No current findings on this topic.''
   \<and> summarize_topic_knowledge RESEARCH_BANK 101 ''Chemistry'' =
     ''Existing knowledge on '' @ [CHR 0x27] @ ''Chemistry'' @ [CHR 0x27] @ '':'' @ [CHR 0x0A]
       @ ''- No current findings on this topic.''"
  using summarize_unknown[of RESEARCH_BANK 102 "''Quantum Computing''"]
        summarize_unknown[of RESEARCH_BANK 101 "''Chemistry''"]
  by (simp add: RESEARCH_BANK_def)

text \<open>
  Claim C7. \<open>save_finding\<close> never raises: it returns the confirmation text and a bank in
  which the user has an entry, the topic of that entry holds the findings it held before
  (none when the user or the topic was absent) followed by the new finding, every other
  topic of the user is as before, and every other user is as before.
\<close>

theorem save_finding_appends:
  "\<exists>bank' topics'.
     save_finding bank u t f =
       Inr (''Finding successfully saved to Research Bank under topic '' @ [CHR 0x27] @ t @ [CHR 0x27] @ ''.'', bank')
     \<and> db bank' u = Some topics'
     \<and> topics' t = Some (dict_get (dict_get (db bank) u Map.empty) t [] @ [f])
     \<and> (\<forall>t'. t' \<noteq> t \<longrightarrow> topics' t' = dict_get (db bank) u Map.empty t')
     \<and> (\<forall>u'. u' \<noteq> u \<longrightarrow> db bank' u' = db bank u')"
  by (simp add: save_finding_eq)

theorem save_finding_appends_witness:
  "\<exists>bank' topics'.
     save_finding RESEARCH_BANK 101 ''Quantum Computing'' ''Qubits decohere.'' =
       Inr (''Finding successfully saved to Research Bank under topic '' @ [CHR 0x27] @ ''Quantum Computing'' @ [CHR 0x27] @ ''.'', bank')
     \<and> db bank' 101 = Some topics'
     \<and> topics' ''Quantum Computing'' = Some [''Initial notes on Qubit entanglement.'', ''Qubits decohere.'']
     \<and> topics' ''Chemistry'' = None
     \<and> db bank' 102 = None"
  using save_finding_appends[of RESEARCH_BANK 101 "''Quantum Computing''" "''Qubits decohere.''"]
  by (auto simp: RESEARCH_BANK_def dict_get_def)

text \<open>
  Claim C10. The bank the module creates holds user 101 with the single topic "Quantum
  Computing" and the single finding "Initial notes on Qubit entanglement."; the summary
  of that user and topic lists that finding, and no other user and no other pair of user
  and topic has an entry.
\<close>

theorem initial_bank:
  "db RESEARCH_BANK 101 = Some [''Quantum Computing'' \<mapsto> [''Initial notes on Qubit entanglement.'']]
   \<and> summarize_topic_knowledge RESEARCH_BANK 101 ''Quantum Computing'' =
       ''Existing knowledge on '' @ [CHR 0x27] @ ''Quantum Computing'' @ [CHR 0x27] @ '':'' @ [CHR 0x0A]
         @ ''- Initial notes on Qubit entanglement.''
   \<and> (\<forall>u. u \<noteq> 101 \<longrightarrow> db RESEARCH_BANK u = None)
   \<and> (\<forall>u t. (u, t) \<noteq> (101, ''Quantum Computing'') \<longrightarrow>
         dict_get (db RESEARCH_BANK) u Map.empty t = None)"
  by (auto simp: RESEARCH_BANK_def summarize_topic_knowledge_def dict_get_def Let_def)

theorem initial_bank_witness:
  "db RESEARCH_BANK 102 = None
   \<and> dict_get (db RESEARCH_BANK) 102 Map.empty ''Quantum Computing'' = None
   \<and> dict_get (db RESEARCH_BANK) 101 Map.empty ''Chemistry'' = None"
  using initial_bank by simp

section \<open>The research loop of the graph\<close>

lemma check_agent_status_latest:
  "messages state = earlier @ [latest] \<Longrightarrow> role latest = Assistant \<Longrightarrow>
   check_agent_status state = Inr (if tool_calls latest \<noteq> [] then call_tool else respond_final)"
  by (simp add: check_agent_status_def last_item_def)

lemma next_node_tool_executor_iff:
  "next_node n state = Inr Node_tool_executor
     \<longleftrightarrow> n = Node_research_agent \<and> check_agent_status state = Inr call_tool"
  by (cases n) (auto split: option.splits intent.splits sum.splits agent_status.splits)

text \<open>
  Claim C8. After the research agent has appended the response of the model to the
  messages, the graph goes on to the tool node when that response carries at least one
  tool call and ends otherwise. The tool node has one edge out, to the research agent,
  and it is entered from the research agent on \<open>call_tool\<close> only: a response with tool
  calls gives one visit of the tool node, and then the research agent runs again.
\<close>

theorem research_loop_transitions:
  "next_node Node_research_agent (add_messages state (research_agent llm_with_tools_invoke state))
     = Inr (if tool_calls (llm_with_tools_invoke
                  (HumanMessage (system_prompt (research_topic state)) # messages state)) \<noteq> []
            then Node_tool_executor else END)
   \<and> next_node Node_tool_executor state_after_tools = Inr Node_research_agent
   \<and> (next_node n s = Inr Node_tool_executor
        \<longleftrightarrow> n = Node_research_agent \<and> check_agent_status s = Inr call_tool)"
proof -
  let ?r = "(llm_with_tools_invoke
      (HumanMessage (system_prompt (research_topic state)) # messages state))\<lparr>role := Assistant\<rparr>"
  have "messages (add_messages state (research_agent llm_with_tools_invoke state)) = messages state @ [?r]"
    by (simp add: add_messages_def research_agent_def)
  from check_agent_status_latest[OF this]
  have "next_node Node_research_agent (add_messages state (research_agent llm_with_tools_invoke state))
     = Inr (if tool_calls ?r \<noteq> [] then Node_tool_executor else END)"
    by simp
  then show ?thesis
    using next_node_tool_executor_iff[of n s] by simp
qed

section \<open>The credential check\<close>

text \<open>
  Claim C9 does not hold of the code. main.py never imports \<open>os\<close>, so the check
  \<^verbatim>\<open>if not os.getenv("GEMINI_API_KEY")\<close> raises \<open>NameError\<close> whatever the environment
  holds: with the key set the start does not get past the check, and with the key unset
  the error is not the \<open>ValueError\<close> that names the variable. The statements before the
  check are taken to have succeeded; the search wrapper of line 25 wants
  \<open>GOOGLE_API_KEY\<close> and \<open>GOOGLE_CSE_ID\<close> in the environment.
\<close>

theorem check_api_key_name_error: "check_api_key environ = Inl (NameError ''os'')"
  by (simp add: check_api_key_def module_names_def)

end
